theory Spec2Isabelle
  imports Main
begin

section \<open>JavaScript strings and numbers used by \<open>server.js\<close>\<close>

text \<open>
  Strings are lists of code units. A request header reaches the handler as a Latin-1
  string, so the 8-bit \<^typ>\<open>char\<close> is the code unit of a header value.

  Every number the handler computes with is an integer-valued JavaScript Number. On
  integers of magnitude at most \<open>2^53\<close> the arithmetic and the comparisons of Numbers are
  exact, and the model uses \<^typ>\<open>int\<close> for them. A digit string whose value lies beyond
  \<open>2^53\<close> is rounded by \<open>parseInt\<close>, monotonically and never below \<open>2^53\<close>; against a
  file size of at most \<open>2^53\<close> the rounded and the exact value take the same branches
  of \<open>parseRange\<close>, so the exact value stands for it. \<open>NaN\<close> is kept apart.
\<close>

datatype jsnum = NaN | Fin int

text \<open>\<open>String.prototype.startsWith\<close>.\<close>

fun startsWith :: "string \<Rightarrow> string \<Rightarrow> bool" where
  "startsWith s [] = True"
| "startsWith [] (p # ps) = False"
| "startsWith (c # cs) (p # ps) = (c = p \<and> startsWith cs ps)"

text \<open>\<open>String.prototype.includes\<close>: the pattern starts at some position of the string.\<close>

fun includesStr :: "string \<Rightarrow> string \<Rightarrow> bool" where
  "includesStr [] p = startsWith [] p"
| "includesStr (c # cs) p = (startsWith (c # cs) p \<or> includesStr cs p)"

text \<open>
  \<open>String.prototype.replace\<close> with a string pattern: only the first occurrence is
  replaced. The one replacement text of the source is the empty string, which holds no
  \<open>$\<close> pattern.
\<close>

fun replace :: "string \<Rightarrow> string \<Rightarrow> string \<Rightarrow> string" where
  "replace [] p r = (if p = [] then r else [])"
| "replace (c # cs) p r =
     (if startsWith (c # cs) p then r @ drop (length p) (c # cs)
      else c # replace cs p r)"

text \<open>
  \<open>String.prototype.split\<close> with a separator of one code unit: the pieces between the
  separators, always at least one piece.
\<close>

fun split :: "string \<Rightarrow> char \<Rightarrow> string list" where
  "split [] sep = [[]]"
| "split (c # cs) sep =
     (if c = sep then [] # split cs sep
      else (case split cs sep of
              [] \<Rightarrow> [[c]]
            | w # ws \<Rightarrow> (c # w) # ws))"

text \<open>
  Array destructuring \<open>const [a, b] = xs\<close>: a position beyond the array gives
  \<open>undefined\<close>, here \<open>None\<close>.
\<close>

fun element :: "'a list \<Rightarrow> nat \<Rightarrow> 'a option" where
  "element [] i = None"
| "element (x # xs) 0 = Some x"
| "element (x # xs) (Suc i) = element xs i"

text \<open>
  \<open>parseInt(s, 10)\<close>: leading white space is skipped, one sign is read, then the longest
  run of decimal digits; no digit gives \<open>NaN\<close>. With radix 10 no \<open>0x\<close> prefix is
  stripped. The white space of a Latin-1 string is TAB, LF, VT, FF, CR, SP and NBSP.
\<close>

definition isWhiteSpace :: "char \<Rightarrow> bool" where
  "isWhiteSpace c = (of_char c \<in> {9, 10, 11, 12, 13, 32, 160 :: nat})"

definition isDigit :: "char \<Rightarrow> bool" where
  "isDigit c = (48 \<le> (of_char c :: nat) \<and> (of_char c :: nat) \<le> 57)"

definition digitValue :: "char \<Rightarrow> int" where
  "digitValue c = int (of_char c) - 48"

definition mathInt :: "string \<Rightarrow> int" where
  "mathInt ds = foldl (\<lambda>a c. 10 * a + digitValue c) 0 ds"

definition parseDigits :: "int \<Rightarrow> string \<Rightarrow> jsnum" where
  "parseDigits sign s =
     (let z = takeWhile isDigit s
      in if z = [] then NaN else Fin (sign * mathInt z))"

definition parseInt :: "string \<Rightarrow> jsnum" where
  "parseInt s =
     (case dropWhile isWhiteSpace s of
        [] \<Rightarrow> NaN
      | c # cs \<Rightarrow>
          if c = CHR ''-'' then parseDigits (- 1) cs
          else if c = CHR ''+'' then parseDigits 1 cs
          else parseDigits 1 (c # cs))"

text \<open>
  \<open>String(n)\<close> and \<open>${n}\<close> for an integer Number below \<open>10^21\<close>: the decimal digits,
  after a minus sign when negative.
\<close>

definition digitChar :: "nat \<Rightarrow> char" where
  "digitChar d = char_of (48 + d)"

fun decimal :: "nat \<Rightarrow> string" where
  "decimal n = (if n < 10 then [digitChar n] else decimal (n div 10) @ [digitChar (n mod 10)])"

declare decimal.simps [simp del]

definition String :: "int \<Rightarrow> string" where
  "String n = (if n < 0 then CHR ''-'' # decimal (nat (- n)) else decimal (nat n))"

section \<open>The range parser\<close>

text \<open>
  \<^verbatim>\<open>
  function parseRange(rangeHeader, size) {
    if (!rangeHeader || !rangeHeader.startsWith("bytes=")) return null;
    const [startStr, endStr] = rangeHeader.replace("bytes=", "").split("-");
    let start = startStr ? parseInt(startStr, 10) : 0;
    let end = endStr ? parseInt(endStr, 10) : size - 1;
    if (Number.isNaN(start)) start = 0;
    if (Number.isNaN(end) || end >= size) end = size - 1;
    if (start > end || start < 0) return null;
    return { start, end };
  }
  \<close>
  The header is absent (\<open>None\<close>) or a string; the empty string is falsy like the absent
  header. \<open>null\<close> is \<open>None\<close>.
\<close>

record byte_range =
  start :: int
  end' :: int

text \<open>\<open>x ? parseInt(x, 10) : d\<close> for a piece that is \<open>undefined\<close>, empty or a string.\<close>

definition parseOr :: "string option \<Rightarrow> int \<Rightarrow> jsnum" where
  "parseOr piece d =
     (case piece of
        None \<Rightarrow> Fin d
      | Some x \<Rightarrow> if x = [] then Fin d else parseInt x)"

definition parseRange :: "string option \<Rightarrow> int \<Rightarrow> byte_range option" where
  "parseRange rangeHeader size' =
     (case rangeHeader of
        None \<Rightarrow> None
      | Some h \<Rightarrow>
          if h = [] \<or> \<not> startsWith h ''bytes='' then None
          else
            let pieces = split (replace h ''bytes='' '''') CHR ''-'';
                startStr = element pieces 0;
                endStr = element pieces 1;
                start0 = parseOr startStr 0;
                end0 = parseOr endStr (size' - 1);
                start1 = (case start0 of NaN \<Rightarrow> 0 | Fin a \<Rightarrow> a);
                end1 = (case end0 of NaN \<Rightarrow> size' - 1
                        | Fin b \<Rightarrow> if b \<ge> size' then size' - 1 else b)
            in if start1 > end1 \<or> start1 < 0 then None
               else Some \<lparr>start = start1, end' = end1\<rparr>)"

section \<open>The link validator\<close>

text \<open>
  \<open>new URL(str)\<close> belongs to the platform, not to the repository: it either throws or
  gives an object of which the validator reads \<open>hostname\<close>, \<open>pathname\<close> and \<open>hash\<close>.
  The validator takes the parser as a parameter; \<open>None\<close> is the thrown \<open>TypeError\<close>.
\<close>

record url =
  hostname :: string
  pathname :: string
  hash :: string

text \<open>
  The enhanced version (\<open>server.js\<close>, lines 17 to 31):
  \<^verbatim>\<open>
  function isAllowedMegaLink(str) {
    try {
      const u = new URL(str);
      const isValidHost = ["mega.nz", "www.mega.nz", "mega.co.nz", "www.mega.co.nz"].includes(u.hostname);
      const isFileLink = u.pathname.startsWith("/file/") ||
                        (u.pathname === "/" && u.hash.startsWith("#!")) ||
                        u.pathname.startsWith("/#!");
      return isValidHost && isFileLink;
    } catch {
      return false;
    }
  }
  \<close>
\<close>

definition isAllowedMegaLink :: "(string \<Rightarrow> url option) \<Rightarrow> string \<Rightarrow> bool" where
  "isAllowedMegaLink URL str =
     (case URL str of
        None \<Rightarrow> False
      | Some u \<Rightarrow>
          let isValidHost =
                (hostname u \<in> set [''mega.nz'', ''www.mega.nz'', ''mega.co.nz'', ''www.mega.co.nz'']);
              isFileLink =
                (startsWith (pathname u) ''/file/'' \<or>
                 (pathname u = ''/'' \<and> startsWith (hash u) ''#!'') \<or>
                 startsWith (pathname u) ''/#!'')
          in isValidHost \<and> isFileLink)"

text \<open>
  The legacy version (\<open>server.js\<close>, lines 174 to 183):
  \<^verbatim>\<open>
  function isAllowedMegaLink(str) {
    try {
      const u = new URL(str);
      return ["mega.nz", "www.mega.nz", "mega.co.nz", "www.mega.co.nz"].includes(u.hostname)
             && (u.pathname.startsWith("/file/") || u.pathname.startsWith("/#!")
                 || u.pathname.startsWith("/f/") === false);
    } catch {
      return false;
    }
  }
  \<close>
\<close>

definition isAllowedMegaLink_legacy :: "(string \<Rightarrow> url option) \<Rightarrow> string \<Rightarrow> bool" where
  "isAllowedMegaLink_legacy URL str =
     (case URL str of
        None \<Rightarrow> False
      | Some u \<Rightarrow>
          hostname u \<in> set [''mega.nz'', ''www.mega.nz'', ''mega.co.nz'', ''www.mega.co.nz'']
          \<and> (startsWith (pathname u) ''/file/'' \<or> startsWith (pathname u) ''/#!''
               \<or> (startsWith (pathname u) ''/f/'' = False)))"

subsection \<open>A fragment of the platform's URL parser\<close>

text \<open>
  To run the validator on concrete links, the platform's parser is written out on the
  plainest absolute links: the scheme \<open>http\<close> or \<open>https\<close> in lower case, \<open>://\<close>, a host
  of dot-separated labels of lower-case letters, then an optional path of letters,
  digits, \<open>/\<close>, \<open>-\<close> and \<open>_\<close>, then an optional fragment of letters, digits, \<open>!\<close>,
  \<open>-\<close> and \<open>_\<close>. On these the platform neither percent-encodes nor normalises: the
  hostname is the host as written, the pathname is the path (\<open>/\<close> when there is none)
  and the hash is the fragment with its \<open>#\<close> (empty when the fragment is empty).
  Any other string is outside the fragment and \<open>URL_plain\<close> gives \<open>None\<close> for it, which
  says nothing about the platform there; the general theorems below hold for every
  parser and use \<open>URL_plain\<close> at concrete links only.
\<close>

definition isLower :: "char \<Rightarrow> bool" where
  "isLower c = (97 \<le> (of_char c :: nat) \<and> (of_char c :: nat) \<le> 122)"

definition isUpper :: "char \<Rightarrow> bool" where
  "isUpper c = (65 \<le> (of_char c :: nat) \<and> (of_char c :: nat) \<le> 90)"

definition isPathChar :: "char \<Rightarrow> bool" where
  "isPathChar c = (isLower c \<or> isUpper c \<or> isDigit c \<or> c \<in> set ''/-_'')"

definition isFragmentChar :: "char \<Rightarrow> bool" where
  "isFragmentChar c = (isLower c \<or> isUpper c \<or> isDigit c \<or> c \<in> set ''!-_'')"

definition isPlainHost :: "string \<Rightarrow> bool" where
  "isPlainHost h = list_all (\<lambda>l. l \<noteq> [] \<and> list_all isLower l) (split h CHR ''.'')"

definition URL_plain :: "string \<Rightarrow> url option" where
  "URL_plain str =
     (let rest = (if startsWith str ''https://'' then Some (drop 8 str)
                  else if startsWith str ''http://'' then Some (drop 7 str)
                  else None)
      in case rest of
           None \<Rightarrow> None
         | Some r \<Rightarrow>
             let host = takeWhile (\<lambda>c. c \<noteq> CHR ''/'' \<and> c \<noteq> CHR ''#'') r;
                 after = dropWhile (\<lambda>c. c \<noteq> CHR ''/'' \<and> c \<noteq> CHR ''#'') r;
                 path = takeWhile (\<lambda>c. c \<noteq> CHR ''#'') after;
                 frag = dropWhile (\<lambda>c. c \<noteq> CHR ''#'') after
             in if isPlainHost host \<and> list_all isPathChar path
                   \<and> list_all isFragmentChar (drop 1 frag)
                then Some \<lparr>hostname = host,
                           pathname = (if path = [] then ''/'' else path),
                           hash = (if length frag \<le> 1 then [] else frag)\<rparr>
                else None)"

section \<open>The download handler\<close>

text \<open>
  The handler of \<open>GET /dl\<close> (\<open>server.js\<close>, lines 61 to 142); its template literals
  are read with the backquotes that the legacy copy of the same lines (232, 245) shows.
  Of the request it reads \<open>req.query.link\<close> and \<open>req.headers.range\<close>, each absent or
  a string. The provider
  (\<open>File.fromURL\<close> followed by \<open>loadAttributes\<close> of the megajs library) either throws an
  error, of which the handler reads \<open>message\<close> and \<open>code\<close>, or gives a file, of which the
  handler reads \<open>name\<close> and \<open>size\<close>. The response is what the handler leaves on \<open>res\<close>:
  the status, the headers it set, and either the text it sent or the download it piped.

  The message of an error is a string or absent. Its code is compared with \<open>===\<close>
  against numbers only, so a code that is absent or not a number is \<open>None\<close>. The size of
  a file is kept as the JavaScript value the provider left there, since the handler
  converts it with \<open>Number\<close>; a numeric size is an integer.

  \<open>file.download(range)\<close> is a method of the file the provider gave. The call stands
  inside the \<open>try\<close> of line 70, so it either returns the stream that is piped into the
  response (\<open>None\<close>: nothing thrown) or throws an error that the catch branch answers
  (\<open>Some err\<close>). The argument is the range, or \<open>None\<close> for the call without argument.
\<close>

record request =
  query_link :: "string option"
  headers_range :: "string option"

record provider_error =
  message :: "string option"
  code :: "int option"

datatype jsval = JUndefined | JNull | JNum jsnum | JStr string

record mega_file =
  name :: "string option"
  size' :: jsval
  download :: "byte_range option \<Rightarrow> provider_error option"

datatype body = Unsent | Send string | Pipe "byte_range option"

record response =
  status :: nat
  headers :: "string \<rightharpoonup> string"
  body :: body

text \<open>
  Platform functions the handler calls: the URL parser, the conversion of a string to a
  Number inside \<open>Number(v)\<close>, and \<open>encodeURIComponent\<close> (total on the well-formed
  names a file carries).
\<close>

record platform =
  URL :: "string \<Rightarrow> url option"
  StringToNumber :: "string \<Rightarrow> jsnum"
  encodeURIComponent :: "string \<Rightarrow> string"

text \<open>\<open>Number(v)\<close>.\<close>

definition Number :: "platform \<Rightarrow> jsval \<Rightarrow> jsnum" where
  "Number pf v =
     (case v of
        JUndefined \<Rightarrow> NaN
      | JNull \<Rightarrow> Fin 0
      | JNum n \<Rightarrow> n
      | JStr s \<Rightarrow> StringToNumber pf s)"

text \<open>
  The response object as the handler finds it, and the calls the handler makes on it:
  \<open>res.status(c)\<close>, \<open>res.setHeader(n, v)\<close>, \<open>res.send(text)\<close> and
  \<open>file.download(range).pipe(res)\<close>. The header names the handler sets are distinct.
\<close>

definition res0 :: response where
  "res0 = \<lparr>status = 200, headers = Map.empty, body = Unsent\<rparr>"

definition setStatus :: "nat \<Rightarrow> response \<Rightarrow> response" where
  "setStatus c res = res\<lparr>status := c\<rparr>"

definition setHeader :: "string \<Rightarrow> string \<Rightarrow> response \<Rightarrow> response" where
  "setHeader n v res = res\<lparr>headers := (headers res)(n \<mapsto> v)\<rparr>"

definition pipe :: "byte_range option \<Rightarrow> response \<Rightarrow> response" where
  "pipe rng res = res\<lparr>body := Pipe rng\<rparr>"

definition send :: "nat \<Rightarrow> string \<Rightarrow> response" where
  "send c text = (setStatus c res0)\<lparr>body := Send text\<rparr>"

text \<open>\<open>err.message?.includes(p)\<close>: an absent message gives \<open>undefined\<close>, which is falsy.\<close>

definition messageIncludes :: "provider_error \<Rightarrow> string \<Rightarrow> bool" where
  "messageIncludes err p =
     (case message err of None \<Rightarrow> False | Some m \<Rightarrow> includesStr m p)"

text \<open>
  The catch branch (lines 116 to 141): a chain of early returns, then the fallback
  \<^verbatim>\<open>Failed to fetch from MEGA: ${err.message || 'Unknown error'}\<close>.
\<close>

definition dl_catch :: "provider_error \<Rightarrow> response" where
  "dl_catch err =
     (if messageIncludes err ''ENOENT'' \<or> code err = Some (- 9) then
        send 404 ''File not found. The MEGA link may be invalid or the file was deleted.''
      else if messageIncludes err ''EACCESS'' \<or> code err = Some (- 11) then
        send 403 ''Access denied. The file may be private or the link is incorrect.''
      else if messageIncludes err ''EEXPIRED'' \<or> code err = Some (- 8) then
        send 410 ''The MEGA link has expired. Please get a fresh link.''
      else if messageIncludes err ''EOVERQUOTA'' \<or> code err = Some (- 17) then
        send 429 ''MEGA quota exceeded. Please try again later.''
      else if messageIncludes err ''EKEY'' \<or> messageIncludes err ''decryption'' then
        send 400 ''Invalid encryption key in the MEGA link.''
      else if messageIncludes err ''ETEMPUNAVAIL'' \<or> code err = Some (- 18) then
        send 503 ''MEGA service temporarily unavailable. Please try again later.''
      else
        send 500 (''Failed to fetch from MEGA: '' @
                  (case message err of
                     None \<Rightarrow> ''Unknown error''
                   | Some m \<Rightarrow> if m = [] then ''Unknown error'' else m)))"

text \<open>
  The catch branch reached from a throwing \<open>download\<close> call finds the response with the
  status and the headers the \<open>try\<close> block has set. \<open>res.status(c).send(text)\<close> replaces
  the status and sends the text; the headers set by the handler's own \<open>setHeader\<close> calls
  are left as they are.
\<close>

definition dl_catch_after :: "response \<Rightarrow> provider_error \<Rightarrow> response" where
  "dl_catch_after res err = res\<lparr>status := status (dl_catch err), body := body (dl_catch err)\<rparr>"

definition dl ::
  "platform \<Rightarrow> (string \<Rightarrow> provider_error + mega_file) \<Rightarrow> request \<Rightarrow> response" where
  "dl pf provider req =
     (case query_link req of
        None \<Rightarrow> send 400 ''Missing ?link=<MEGA_PUBLIC_FILE_URL>''
      | Some megaLink \<Rightarrow>
          if megaLink = [] then send 400 ''Missing ?link=<MEGA_PUBLIC_FILE_URL>''
          else if \<not> isAllowedMegaLink (URL pf) megaLink then
            send 400 ''Only public MEGA FILE links are supported.''
          else
            (case provider megaLink of
               Inl err \<Rightarrow> dl_catch err
             | Inr f \<Rightarrow>
                 let fileName = (case name f of
                                   None \<Rightarrow> ''download.bin''
                                 | Some n \<Rightarrow> if n = [] then ''download.bin'' else n)
                 in (case Number pf (size' f) of
                      NaN \<Rightarrow> send 400 ''File appears to be empty or invalid.''
                    | Fin fileSize \<Rightarrow>
                        if fileSize = 0 then send 400 ''File appears to be empty or invalid.''
                        else
                          let res1 = setHeader ''Content-Disposition''
                                       (''attachment; filename*=UTF-8'' @ [CHR 0x27, CHR 0x27] @
                                        encodeURIComponent pf fileName) res0;
                              res2 = setHeader ''Accept-Ranges'' ''bytes'' res1;
                              res3 = setHeader ''Cache-Control'' ''no-store'' res2
                          in (case parseRange (headers_range req) fileSize of
                               Some rng \<Rightarrow>
                                 let chunkSize = end' rng - start rng + 1;
                                     res4 = setStatus 206 res3;
                                     res5 = setHeader ''Content-Type''
                                              ''application/octet-stream'' res4;
                                     res6 = setHeader ''Content-Range''
                                              (''bytes '' @ String (start rng) @ ''-'' @
                                               String (end' rng) @ ''/'' @ String fileSize) res5;
                                     res7 = setHeader ''Content-Length'' (String chunkSize) res6
                                 in (case download f (Some rng) of
                                       None \<Rightarrow> pipe (Some rng) res7
                                     | Some err \<Rightarrow> dl_catch_after res7 err)
                             | None \<Rightarrow>
                                 let res4 = setStatus 200 res3;
                                     res5 = setHeader ''Content-Length'' (String fileSize) res4;
                                     res6 = setHeader ''Content-Type''
                                              ''application/octet-stream'' res5
                                 in (case download f None of
                                       None \<Rightarrow> pipe None res6
                                     | Some err \<Rightarrow> dl_catch_after res6 err)))))"

section \<open>The status table of the specification\<close>

text \<open>
  The table of the specification (section 4.4), written down from its words to compare
  the catch branch with: each row lists the texts looked for in the message, the
  code, if the row has one, and the status. A row matches an error through either
  channel; the first matching row in table order gives the status; no matching row
  gives 500.
\<close>

definition errorTable :: "(string list \<times> int option \<times> nat) list" where
  "errorTable =
     [([''ENOENT''], Some (- 9), 404),
      ([''EACCESS''], Some (- 11), 403),
      ([''EEXPIRED''], Some (- 8), 410),
      ([''EOVERQUOTA''], Some (- 17), 429),
      ([''EKEY'', ''decryption''], None, 400),
      ([''ETEMPUNAVAIL''], Some (- 18), 503)]"

definition rowMatches :: "provider_error \<Rightarrow> string list \<times> int option \<times> nat \<Rightarrow> bool" where
  "rowMatches err row =
     (case row of (texts, c, st) \<Rightarrow>
        list_ex (messageIncludes err) texts \<or> (c \<noteq> None \<and> code err = c))"

definition tableStatus :: "provider_error \<Rightarrow> nat" where
  "tableStatus err =
     (case find (rowMatches err) errorTable of
        Some (texts, c, st) \<Rightarrow> st
      | None \<Rightarrow> 500)"

section \<open>A platform to run the handler on\<close>

text \<open>
  For concrete runs: the plain URL parser above, \<open>encodeURIComponent\<close> as it is on
  names of letters, digits and dots (unchanged), and the conversion of a string to a
  Number as it is on digit strings (their value) and on words of letters other than
  \<open>Infinity\<close> (\<open>NaN\<close>). The runs below stay on such inputs.
\<close>

definition plainPlatform :: platform where
  "plainPlatform =
     \<lparr>URL = URL_plain,
      StringToNumber = (\<lambda>s. if s \<noteq> [] \<and> list_all isDigit s then Fin (mathInt s) else NaN),
      encodeURIComponent = (\<lambda>s. s)\<rparr>"

text \<open>
  Two behaviours of the \<open>download\<close> method for concrete runs: one that opens its stream,
  and the one megajs shows on a file whose link carries no key, where the attributes
  load (without a name, which cannot be decrypted) and the call throws the error
  \<open>Can't download: key isn't defined\<close>.
\<close>

definition opensStream :: "byte_range option \<Rightarrow> provider_error option" where
  "opensStream rng = None"





section \<open>Facts about the string and number functions\<close>

lemma startsWith_iff: "startsWith s p \<longleftrightarrow> (\<exists>r. s = p @ r)"
  by (induction s p rule: startsWith.induct) auto

lemma startsWith_append: "startsWith (p @ r) p"
  by (simp add: startsWith_iff)

lemma replace_prefix: "p \<noteq> [] \<Longrightarrow> replace (p @ r) p t = t @ r"
  by (cases p) (simp_all add: startsWith_append[of "_ # _", simplified])

lemma split_no_sep: "c \<notin> set s \<Longrightarrow> split s c = [s]"
  by (induction s) auto

lemma split_at_sep: "c \<notin> set a \<Longrightarrow> split (a @ c # b) c = a # split b c"
  by (induction a) auto

lemma split_first: "element (split s c) 0 = Some (takeWhile (\<lambda>x. x \<noteq> c) s)"
  by (induction s) (auto split: list.splits)

lemma of_char_digitChar: "d < 10 \<Longrightarrow> of_char (digitChar d) = 48 + d"
  by (simp add: digitChar_def)

lemma isDigit_digitChar: "d < 10 \<Longrightarrow> isDigit (digitChar d)"
  by (simp add: isDigit_def of_char_digitChar)

lemma digitValue_digitChar: "d < 10 \<Longrightarrow> digitValue (digitChar d) = int d"
  by (simp add: digitValue_def of_char_digitChar)

lemma decimal_digits: "list_all isDigit (decimal n)"
  by (induction n rule: decimal.induct) (subst decimal.simps, auto simp: isDigit_digitChar)

lemma decimal_nonempty: "decimal n \<noteq> []"
  by (subst decimal.simps) auto

lemma mathInt_snoc: "mathInt (ds @ [c]) = 10 * mathInt ds + digitValue c"
  by (simp add: mathInt_def)

lemma mathInt_decimal: "mathInt (decimal n) = int n"
proof (induction n rule: decimal.induct)
  case (1 n)
  show ?case
  proof (cases "n < 10")
    case True
    then show ?thesis by (subst decimal.simps) (simp add: mathInt_def digitValue_digitChar)
  next
    case False
    with 1 have "mathInt (decimal (n div 10)) = int (n div 10)" by simp
    moreover have "10 * int (n div 10) + int (n mod 10) = int n"
      by presburger
    ultimately show ?thesis using False
      by (subst decimal.simps) (simp add: mathInt_snoc digitValue_digitChar)
  qed
qed

lemma isDigit_not_space: "isDigit c \<Longrightarrow> \<not> isWhiteSpace c"
  by (auto simp: isDigit_def isWhiteSpace_def)

lemma isDigit_not_sign: "isDigit c \<Longrightarrow> c \<noteq> CHR ''-'' \<and> c \<noteq> CHR ''+''"
  by (auto simp: isDigit_def)

lemma parseInt_digits:
  assumes "ds \<noteq> []" "list_all isDigit ds"
  shows "parseInt ds = Fin (mathInt ds)"
proof -
  from assms obtain c cs where ds: "ds = c # cs" and c: "isDigit c"
    by (cases ds) auto
  have tw: "takeWhile isDigit cs = cs"
    using assms(2) by (simp add: list_all_iff ds)
  show ?thesis
    using c isDigit_not_space[OF c] isDigit_not_sign[OF c]
    by (simp add: parseInt_def ds parseDigits_def tw)
qed

lemma parseInt_decimal: "parseInt (decimal n) = Fin (int n)"
  by (simp add: parseInt_digits decimal_nonempty decimal_digits mathInt_decimal)

lemma decimal_no_dash: "CHR ''-'' \<notin> set (decimal n)"
  using decimal_digits[of n] isDigit_not_sign by (auto simp: list_all_iff)

lemma parseInt_Nil: "parseInt [] = NaN"
  by (simp add: parseInt_def)

lemma foldl_digits_nonneg:
  "list_all isDigit ds \<Longrightarrow> 0 \<le> acc \<Longrightarrow> 0 \<le> foldl (\<lambda>a c. 10 * a + digitValue c) acc ds"
  by (induction ds arbitrary: acc) (auto simp: isDigit_def digitValue_def)

lemma mathInt_nonneg: "0 \<le> mathInt (takeWhile isDigit s)"
  unfolding mathInt_def
  by (rule foldl_digits_nonneg) (auto simp: list_all_iff dest: set_takeWhileD)

lemma parseInt_nonneg:
  assumes "CHR ''-'' \<notin> set a" "parseInt a = Fin v"
  shows "0 \<le> v"
proof (cases "dropWhile isWhiteSpace a")
  case Nil
  with assms(2) show ?thesis by (simp add: parseInt_def)
next
  case (Cons c cs)
  then have "c \<in> set a"
    by (metis list.set_intros(1) set_dropWhileD)
  with assms(1) have "c \<noteq> CHR ''-''" by auto
  with assms(2) Cons show ?thesis
    using mathInt_nonneg[of cs] mathInt_nonneg[of "c # cs"]
    by (auto simp: parseInt_def parseDigits_def Let_def split: if_splits)
qed

lemma pieces_two:
  assumes "CHR ''-'' \<notin> set a" "CHR ''-'' \<notin> set b"
  shows "split (replace (''bytes='' @ a @ ''-'' @ b) ''bytes='' []) CHR ''-'' = [a, b]"
proof -
  have "replace (''bytes='' @ a @ ''-'' @ b) ''bytes='' [] = a @ CHR ''-'' # b"
    using replace_prefix[of "''bytes=''" "a @ ''-'' @ b" "[]"] by simp
  then show ?thesis
    using assms by (simp add: split_at_sep split_no_sep)
qed

lemma pieces_one:
  assumes "CHR ''-'' \<notin> set a"
  shows "split (replace (''bytes='' @ a) ''bytes='' []) CHR ''-'' = [a]"
proof -
  have "replace (''bytes='' @ a) ''bytes='' [] = a"
    using replace_prefix[of "''bytes=''" a "[]"] by simp
  then show ?thesis
    using assms by (simp add: split_no_sep)
qed

lemma parseOr_start: "(case parseOr (Some a) 0 of NaN \<Rightarrow> 0 | Fin v \<Rightarrow> v) = (case parseInt a of NaN \<Rightarrow> 0 | Fin v \<Rightarrow> v)"
  by (simp add: parseOr_def parseInt_Nil)

lemma parseRange_two_pieces:
  assumes "CHR ''-'' \<notin> set a" "CHR ''-'' \<notin> set b"
  shows "parseRange (Some (''bytes='' @ a @ ''-'' @ b)) sz =
     (let s = (case parseInt a of NaN \<Rightarrow> 0 | Fin v \<Rightarrow> v);
          e = (case parseInt b of NaN \<Rightarrow> sz - 1 | Fin v \<Rightarrow> if sz \<le> v then sz - 1 else v)
      in if e < s then None else Some \<lparr>start = s, end' = e\<rparr>)"
proof -
  have sw: "startsWith (''bytes='' @ a @ ''-'' @ b) ''bytes=''"
    by (rule startsWith_append)
  have s0: "0 \<le> (case parseInt a of NaN \<Rightarrow> 0 | Fin v \<Rightarrow> v)"
    using parseInt_nonneg[OF assms(1)] by (cases "parseInt a") auto
  have e: "(case parseOr (Some b) (sz - 1) of NaN \<Rightarrow> sz - 1 | Fin v \<Rightarrow> if sz \<le> v then sz - 1 else v)
         = (case parseInt b of NaN \<Rightarrow> sz - 1 | Fin v \<Rightarrow> if sz \<le> v then sz - 1 else v)"
    by (simp add: parseOr_def parseInt_Nil)
  show ?thesis
    unfolding parseRange_def
    using sw s0 
    by (simp add: pieces_two[OF assms] parseOr_start e Let_def del: startsWith.simps append.simps)
qed

lemma parseRange_one_piece:
  assumes "CHR ''-'' \<notin> set a"
  shows "parseRange (Some (''bytes='' @ a)) sz =
     (let s = (case parseInt a of NaN \<Rightarrow> 0 | Fin v \<Rightarrow> v)
      in if sz - 1 < s then None else Some \<lparr>start = s, end' = sz - 1\<rparr>)"
proof -
  have sw: "startsWith (''bytes='' @ a) ''bytes=''"
    by (rule startsWith_append)
  have s0: "0 \<le> (case parseInt a of NaN \<Rightarrow> 0 | Fin v \<Rightarrow> v)"
    using parseInt_nonneg[OF assms(1)] by (cases "parseInt a") auto
  show ?thesis
    unfolding parseRange_def
    using sw s0
    by (simp add: pieces_one[OF assms] parseOr_start parseOr_def parseInt_Nil Let_def
             del: startsWith.simps append.simps)
qed

lemma takeWhile_digits_stop:
  "\<not> isDigit c \<Longrightarrow> takeWhile isDigit (ds @ c # x) = takeWhile isDigit ds"
  by (induction ds) auto

lemma parseDigits_stop:
  "\<not> isDigit c \<Longrightarrow> parseDigits sg (ds @ c # x) = parseDigits sg ds"
  by (simp add: parseDigits_def takeWhile_digits_stop)

lemma parseInt_stop:
  assumes "\<not> isDigit c" and "\<not> isWhiteSpace c" and "c \<noteq> CHR ''-''" and "c \<noteq> CHR ''+''"
  shows "parseInt (b @ c # x) = parseInt b"
proof (induction b)
  case Nil
  from assms show ?case
    by (simp add: parseInt_def parseDigits_def)
next
  case (Cons d b)
  show ?case
  proof (cases "isWhiteSpace d")
    case True
    then have "parseInt (d # t) = parseInt t" for t
      by (simp add: parseInt_def)
    with Cons show ?thesis by simp
  next
    case False
    with assms(1) show ?thesis
      using parseDigits_stop[of c _ b x] parseDigits_stop[of c _ "d # b" x]
      by (simp add: parseInt_def)
  qed
qed

lemma parseInt_before_comma: "parseInt (b @ CHR '','' # x) = parseInt b"
  by (rule parseInt_stop) (simp_all add: isDigit_def isWhiteSpace_def)

lemma pieces_multi:
  assumes "CHR ''-'' \<notin> set a" and "CHR ''-'' \<notin> set b"
  shows "element (split (replace (''bytes='' @ a @ ''-'' @ b @ '','' @ x) ''bytes='' []) CHR ''-'') 0
           = Some a
       \<and> element (split (replace (''bytes='' @ a @ ''-'' @ b @ '','' @ x) ''bytes='' []) CHR ''-'')
           (Suc 0)
           = Some (b @ CHR '','' # takeWhile (\<lambda>c. c \<noteq> CHR ''-'') x)"
proof -
  have r: "replace (''bytes='' @ a @ ''-'' @ b @ '','' @ x) ''bytes='' [] = a @ CHR ''-'' # (b @ CHR '','' # x)"
    using replace_prefix[of "''bytes=''" "a @ ''-'' @ b @ '','' @ x" "[]"] by simp
  have t: "takeWhile (\<lambda>c. c \<noteq> CHR ''-'') (b @ CHR '','' # x)
             = b @ CHR '','' # takeWhile (\<lambda>c. c \<noteq> CHR ''-'') x"
    using assms(2) by (induction b) auto
  show ?thesis
    unfolding r split_at_sep[OF assms(1)]
    by (simp add: split_first t)
qed

section \<open>Properties of the range parser\<close>

text \<open>
  Claim C4. Whenever \<open>parseRange\<close> returns a range for a positive size, the range
  satisfies \<open>0 \<le> start \<le> end \<le> size - 1\<close>: no inverted window and no window beyond the
  file reaches the provider's download call, whatever the header.
\<close>

theorem parseRange_within_bounds:
  assumes "0 < sz" and "parseRange h sz = Some r"
  shows "0 \<le> start r \<and> start r \<le> end' r \<and> end' r \<le> sz - 1"
  using assms(2)
  by (auto simp: parseRange_def Let_def split: option.splits if_splits jsnum.splits)

theorem parseRange_within_bounds_witness:
  "(0::int) < 1000
   \<and> parseRange (Some ''bytes=900-1500'') 1000 = Some \<lparr>start = 900, end' = 999\<rparr>
   \<and> 0 \<le> start \<lparr>start = 900, end' = 999\<rparr>
   \<and> start \<lparr>start = 900, end' = 999\<rparr> \<le> end' \<lparr>start = 900, end' = 999\<rparr>
   \<and> end' \<lparr>start = 900, end' = 999\<rparr> \<le> 1000 - 1"
proof -
  have h1: "(0::int) < 1000" by simp
  have h2: "parseRange (Some ''bytes=900-1500'') 1000 = Some \<lparr>start = 900, end' = 999\<rparr>"
    by code_simp
  show ?thesis
    using h1 h2 parseRange_within_bounds[OF h1 h2] by simp
qed

text \<open>
  Claim C7. In the suffix form the missing left side makes \<open>start\<close> zero, and the number
  on the right is the end, not a count of last bytes: for \<open>0 \<le> N \<le> size - 1\<close> the header
  \<open>bytes=-N\<close>, with \<open>N\<close> in decimal, gives \<open>{start: 0, end: N}\<close>. At \<open>bytes=-100\<close> and
  size 1000 the range is \<open>{start: 0, end: 100}\<close>.
\<close>

theorem parseRange_suffix_form:
  assumes "0 \<le> N" and "N \<le> sz - 1"
  shows "parseRange (Some (''bytes=-'' @ String N)) sz = Some \<lparr>start = 0, end' = N\<rparr>"
proof -
  have str: "String N = decimal (nat N)"
    using assms(1) by (simp add: String_def)
  have "parseRange (Some (''bytes='' @ [] @ ''-'' @ decimal (nat N))) sz
          = Some \<lparr>start = 0, end' = N\<rparr>"
    using assms
    by (subst parseRange_two_pieces)
       (simp_all add: decimal_no_dash parseInt_decimal parseInt_Nil)
  then show ?thesis by (simp add: str)
qed

theorem parseRange_suffix_form_witness:
  "(0::int) \<le> 100 \<and> (100::int) \<le> 1000 - 1
   \<and> parseRange (Some ''bytes=-100'') 1000 = Some \<lparr>start = 0, end' = 100\<rparr>"
proof -
  have s: "String 100 = ''100''" by code_simp
  show ?thesis
    using parseRange_suffix_form[of 100 1000] by (simp add: s)
qed

text \<open>
  Claim C8. For a header \<open>bytes=a-b\<close> whose two sides hold no further \<open>-\<close>, and for a
  header \<open>bytes=a\<close> with no \<open>-\<close> at all: a start that is missing or not a number is 0;
  an end that is missing, not a number, or at least the size is \<open>size - 1\<close>; the range
  is returned unless the start lies beyond the end. A missing side is the empty
  string, on which \<open>parseInt\<close> is \<open>NaN\<close>. In particular \<open>bytes=500-\<close> and
  \<open>bytes=900-1500\<close> at size 1000 give \<open>{500, 999}\<close> and \<open>{900, 999}\<close>.
\<close>

theorem parseRange_defaults:
  assumes "CHR ''-'' \<notin> set a" and "CHR ''-'' \<notin> set b"
  shows "parseRange (Some (''bytes='' @ a @ ''-'' @ b)) sz =
           (let s = (case parseInt a of NaN \<Rightarrow> 0 | Fin v \<Rightarrow> v);
                e = (case parseInt b of
                       NaN \<Rightarrow> sz - 1
                     | Fin v \<Rightarrow> if sz \<le> v then sz - 1 else v)
            in if e < s then None else Some \<lparr>start = s, end' = e\<rparr>)
         \<and> parseRange (Some (''bytes='' @ a)) sz =
           (let s = (case parseInt a of NaN \<Rightarrow> 0 | Fin v \<Rightarrow> v)
            in if sz - 1 < s then None else Some \<lparr>start = s, end' = sz - 1\<rparr>)
         \<and> parseRange (Some ''bytes=500-'') 1000 = Some \<lparr>start = 500, end' = 999\<rparr>
         \<and> parseRange (Some ''bytes=900-1500'') 1000 = Some \<lparr>start = 900, end' = 999\<rparr>"
proof -
  have ex1: "parseRange (Some ''bytes=500-'') 1000 = Some \<lparr>start = 500, end' = 999\<rparr>"
    by code_simp
  have ex2: "parseRange (Some ''bytes=900-1500'') 1000 = Some \<lparr>start = 900, end' = 999\<rparr>"
    by code_simp
  show ?thesis
    using parseRange_two_pieces[OF assms, of sz] parseRange_one_piece[OF assms(1), of sz] ex1 ex2
    by simp
qed

theorem parseRange_defaults_witness:
  "CHR ''-'' \<notin> set ''abc'' \<and> CHR ''-'' \<notin> set ''xyz''
   \<and> parseRange (Some ''bytes=abc-xyz'') 1000 = Some \<lparr>start = 0, end' = 999\<rparr>
   \<and> parseRange (Some ''bytes=abc'') 1000 = Some \<lparr>start = 0, end' = 999\<rparr>"
proof -
  have a: "parseInt ''abc'' = NaN" by code_simp
  have b: "parseInt ''xyz'' = NaN" by code_simp
  show ?thesis
    using parseRange_defaults[of "''abc''" "''xyz''" 1000] by (simp add: a b)
qed

text \<open>
  Claim C9. A header listing several ranges is read up to the first comma: for a first
  segment \<open>a-b\<close> whose sides hold no \<open>-\<close>, and whatever follows the comma, the result
  for \<open>bytes=a-b,...\<close> is the result for \<open>bytes=a-b\<close>, that is the window read from \<open>a\<close>
  and \<open>b\<close> alone: the first range, neither refused for being a list nor combined with
  the ranges after it. In particular \<open>bytes=0-10,20-30\<close> at size 1000 gives
  \<open>{start: 0, end: 10}\<close>.
\<close>

theorem parseRange_multi_range_first_segment:
  assumes "CHR ''-'' \<notin> set a" and "CHR ''-'' \<notin> set b"
  shows "parseRange (Some (''bytes='' @ a @ ''-'' @ b @ '','' @ x)) sz
           = parseRange (Some (''bytes='' @ a @ ''-'' @ b)) sz
       \<and> parseRange (Some (''bytes='' @ a @ ''-'' @ b @ '','' @ x)) sz
           = (let s = (case parseInt a of NaN \<Rightarrow> 0 | Fin v \<Rightarrow> v);
                  e = (case parseInt b of
                         NaN \<Rightarrow> sz - 1
                       | Fin v \<Rightarrow> if sz \<le> v then sz - 1 else v)
              in if e < s then None else Some \<lparr>start = s, end' = e\<rparr>)
       \<and> parseRange (Some ''bytes=0-10,20-30'') 1000 = Some \<lparr>start = 0, end' = 10\<rparr>"
proof -
  have ex: "parseRange (Some ''bytes=0-10,20-30'') 1000 = Some \<lparr>start = 0, end' = 10\<rparr>"
    by code_simp
  have sw: "startsWith (''bytes='' @ a @ ''-'' @ b @ '','' @ x) ''bytes=''"
    by (rule startsWith_append)
  have s0: "0 \<le> (case parseInt a of NaN \<Rightarrow> 0 | Fin v \<Rightarrow> v)"
    using parseInt_nonneg[OF assms(1)] by (cases "parseInt a") auto
  have e: "(case parseOr (Some (b @ CHR '','' # takeWhile (\<lambda>c. c \<noteq> CHR ''-'') x)) (sz - 1) of
              NaN \<Rightarrow> sz - 1 | Fin v \<Rightarrow> if sz \<le> v then sz - 1 else v)
         = (case parseInt b of NaN \<Rightarrow> sz - 1 | Fin v \<Rightarrow> if sz \<le> v then sz - 1 else v)"
    by (simp add: parseOr_def parseInt_before_comma)
  have "parseRange (Some (''bytes='' @ a @ ''-'' @ b @ '','' @ x)) sz =
     (let s = (case parseInt a of NaN \<Rightarrow> 0 | Fin v \<Rightarrow> v);
          e = (case parseInt b of NaN \<Rightarrow> sz - 1 | Fin v \<Rightarrow> if sz \<le> v then sz - 1 else v)
      in if e < s then None else Some \<lparr>start = s, end' = e\<rparr>)"
    unfolding parseRange_def
    using sw s0
    by (simp add: pieces_multi[OF assms] parseOr_start e Let_def
             del: startsWith.simps append.simps)
  then show ?thesis
    using ex parseRange_two_pieces[OF assms, of sz] by simp
qed

theorem parseRange_multi_range_first_segment_witness:
  "CHR ''-'' \<notin> set ''5'' \<and> CHR ''-'' \<notin> set ''20''
   \<and> parseRange (Some ''bytes=5-20'') 1000 = Some \<lparr>start = 5, end' = 20\<rparr>
   \<and> parseRange (Some ''bytes=5-20,30-40'') 1000 = Some \<lparr>start = 5, end' = 20\<rparr>"
proof -
  have f: "parseRange (Some ''bytes=5-20'') 1000 = Some \<lparr>start = 5, end' = 20\<rparr>"
    by code_simp
  show ?thesis
    using f parseRange_multi_range_first_segment[of "''5''" "''20''" "''30-40''" 1000]
    by simp
qed

section \<open>Properties of the link validator\<close>

text \<open>
  Claim C1. For every parser and every string, the validator returns true exactly when
  the string parses, the hostname is one of \<open>mega.nz\<close>, \<open>www.mega.nz\<close>, \<open>mega.co.nz\<close>,
  \<open>www.mega.co.nz\<close>, and the link has one of three shapes: the path begins with
  \<open>/file/\<close>, or the path is \<open>/\<close> and the hash begins with \<open>#!\<close>, or the path begins
  with \<open>/#!\<close>. In particular it returns false, and does not throw, when the string does
  not parse; false for every other host whatever the path; false for a path
  \<open>/folder/...\<close>; and true for an allowed host with a path \<open>/file/...\<close>.
\<close>

theorem isAllowedMegaLink_exact:
  "(isAllowedMegaLink parse str \<longleftrightarrow>
      (\<exists>u. parse str = Some u
           \<and> hostname u \<in> {''mega.nz'', ''www.mega.nz'', ''mega.co.nz'', ''www.mega.co.nz''}
           \<and> ((\<exists>rest. pathname u = ''/file/'' @ rest)
                \<or> (pathname u = ''/'' \<and> (\<exists>rest. hash u = ''#!'' @ rest))
                \<or> (\<exists>rest. pathname u = ''/#!'' @ rest))))
   \<and> (parse str = None \<longrightarrow> \<not> isAllowedMegaLink parse str)
   \<and> (\<forall>u. parse str = Some u
           \<and> hostname u \<notin> {''mega.nz'', ''www.mega.nz'', ''mega.co.nz'', ''www.mega.co.nz''}
          \<longrightarrow> \<not> isAllowedMegaLink parse str)
   \<and> (\<forall>u rest. parse str = Some u \<and> pathname u = ''/folder/'' @ rest
          \<longrightarrow> \<not> isAllowedMegaLink parse str)
   \<and> (\<forall>u rest. parse str = Some u
           \<and> hostname u \<in> {''mega.nz'', ''www.mega.nz'', ''mega.co.nz'', ''www.mega.co.nz''}
           \<and> pathname u = ''/file/'' @ rest
          \<longrightarrow> isAllowedMegaLink parse str)"
proof -
  have a: "isAllowedMegaLink parse str \<longleftrightarrow>
      (\<exists>u. parse str = Some u
           \<and> hostname u \<in> {''mega.nz'', ''www.mega.nz'', ''mega.co.nz'', ''www.mega.co.nz''}
           \<and> ((\<exists>rest. pathname u = ''/file/'' @ rest)
                \<or> (pathname u = ''/'' \<and> (\<exists>rest. hash u = ''#!'' @ rest))
                \<or> (\<exists>rest. pathname u = ''/#!'' @ rest)))"
    unfolding isAllowedMegaLink_def Let_def startsWith_iff
    by (cases "parse str") simp_all
  show ?thesis
    unfolding a by auto
qed

theorem isAllowedMegaLink_exact_witness:
  "URL_plain ''not a link'' = None
   \<and> \<not> isAllowedMegaLink URL_plain ''not a link''
   \<and> URL_plain ''https://example.com/file/XXXX''
       = Some \<lparr>hostname = ''example.com'', pathname = ''/file/XXXX'', hash = []\<rparr>
   \<and> \<not> isAllowedMegaLink URL_plain ''https://example.com/file/XXXX''
   \<and> URL_plain ''https://mega.nz/folder/XXXX''
       = Some \<lparr>hostname = ''mega.nz'', pathname = ''/folder/XXXX'', hash = []\<rparr>
   \<and> \<not> isAllowedMegaLink URL_plain ''https://mega.nz/folder/XXXX''
   \<and> URL_plain ''https://mega.nz/file/XXXX''
       = Some \<lparr>hostname = ''mega.nz'', pathname = ''/file/XXXX'', hash = []\<rparr>
   \<and> isAllowedMegaLink URL_plain ''https://mega.nz/file/XXXX''"
proof -
  have p1: "URL_plain ''not a link'' = None"
    by code_simp
  have p2: "URL_plain ''https://example.com/file/XXXX''
       = Some \<lparr>hostname = ''example.com'', pathname = ''/file/XXXX'', hash = []\<rparr>"
    by code_simp
  have p3: "URL_plain ''https://mega.nz/folder/XXXX''
       = Some \<lparr>hostname = ''mega.nz'', pathname = ''/folder/XXXX'', hash = []\<rparr>"
    by code_simp
  have p4: "URL_plain ''https://mega.nz/file/XXXX''
       = Some \<lparr>hostname = ''mega.nz'', pathname = ''/file/XXXX'', hash = []\<rparr>"
    by code_simp
  have c1: "\<not> isAllowedMegaLink URL_plain ''not a link''"
    using isAllowedMegaLink_exact[of URL_plain "''not a link''"] p1 by blast
  have c2: "\<not> isAllowedMegaLink URL_plain ''https://example.com/file/XXXX''"
    using isAllowedMegaLink_exact[of URL_plain "''https://example.com/file/XXXX''"] p2
    by simp
  have c3: "\<not> isAllowedMegaLink URL_plain ''https://mega.nz/folder/XXXX''"
    using isAllowedMegaLink_exact[of URL_plain "''https://mega.nz/folder/XXXX''"] p3
    by simp
  have c4: "isAllowedMegaLink URL_plain ''https://mega.nz/file/XXXX''"
    using isAllowedMegaLink_exact[of URL_plain "''https://mega.nz/file/XXXX''"] p4
    by simp
  from p1 p2 p3 p4 c1 c2 c3 c4 show ?thesis by blast
qed

text \<open>
  Claim C10 says that the enhanced and the legacy validator return the same boolean on
  every string. They do not. The legacy version is a host allowlist that turns away
  only the paths beginning with \<open>/f/\<close>; the enhanced version asks for a file-link
  shape. On the bare address of an allowed host the legacy version returns true and the
  enhanced version false.
\<close>

theorem isAllowedMegaLink_versions_differ:
  "isAllowedMegaLink_legacy URL_plain ''https://mega.nz/''
   \<noteq> isAllowedMegaLink URL_plain ''https://mega.nz/''"
  by code_simp

text \<open>
  Claim C10, amended. Whatever the enhanced validator accepts, the legacy validator
  accepts. The two return the same boolean on every string that does not parse, on
  every link of a host outside the allowlist, on every link whose path begins with
  \<open>/f/\<close>, and on every link with one of the three file-link shapes.
\<close>

theorem isAllowedMegaLink_legacy_accepts_more:
  "(isAllowedMegaLink parse str \<longrightarrow> isAllowedMegaLink_legacy parse str)
   \<and> (parse str = None
        \<or> (\<exists>u. parse str = Some u
               \<and> (hostname u \<notin> {''mega.nz'', ''www.mega.nz'', ''mega.co.nz'', ''www.mega.co.nz''}
                    \<or> startsWith (pathname u) ''/f/''
                    \<or> startsWith (pathname u) ''/file/''
                    \<or> (pathname u = ''/'' \<and> startsWith (hash u) ''#!'')
                    \<or> startsWith (pathname u) ''/#!''))
        \<longrightarrow> isAllowedMegaLink_legacy parse str = isAllowedMegaLink parse str)"
proof (cases "parse str")
  case None
  then show ?thesis
    by (simp add: isAllowedMegaLink_def isAllowedMegaLink_legacy_def)
next
  case (Some u)
  have root: "\<not> startsWith ''/'' ''/f/''"
    by simp
  have fileP: "startsWith p ''/file/'' \<Longrightarrow> \<not> startsWith p ''/f/''" for p
    by (auto simp: startsWith_iff)
  have bang: "startsWith p ''/#!'' \<Longrightarrow> \<not> startsWith p ''/f/''" for p
    by (auto simp: startsWith_iff)
  show ?thesis
    using Some root fileP[of "pathname u"] bang[of "pathname u"]
    by (auto simp: isAllowedMegaLink_def isAllowedMegaLink_legacy_def Let_def
             simp del: startsWith.simps)
qed

theorem isAllowedMegaLink_legacy_accepts_more_witness:
  "isAllowedMegaLink URL_plain ''https://mega.nz/file/XXXX''
   \<and> isAllowedMegaLink_legacy URL_plain ''https://mega.nz/file/XXXX''
   \<and> URL_plain ''https://example.com/file/XXXX''
       = Some \<lparr>hostname = ''example.com'', pathname = ''/file/XXXX'', hash = []\<rparr>
   \<and> isAllowedMegaLink_legacy URL_plain ''https://example.com/file/XXXX''
       = isAllowedMegaLink URL_plain ''https://example.com/file/XXXX''"
proof -
  have h: "isAllowedMegaLink URL_plain ''https://mega.nz/file/XXXX''"
    by code_simp
  have p: "URL_plain ''https://example.com/file/XXXX''
       = Some \<lparr>hostname = ''example.com'', pathname = ''/file/XXXX'', hash = []\<rparr>"
    by code_simp
  have a: "isAllowedMegaLink_legacy URL_plain ''https://mega.nz/file/XXXX''"
    using h isAllowedMegaLink_legacy_accepts_more[of URL_plain "''https://mega.nz/file/XXXX''"]
    by blast
  have b: "isAllowedMegaLink_legacy URL_plain ''https://example.com/file/XXXX''
       = isAllowedMegaLink URL_plain ''https://example.com/file/XXXX''"
    using p isAllowedMegaLink_legacy_accepts_more[of URL_plain "''https://example.com/file/XXXX''"]
    by simp
  from h p a b show ?thesis by blast
qed

section \<open>Properties of the download handler\<close>

text \<open>
  Claim C2. The catch branch gives every provider error exactly one response. Its
  status is the status of the first row of the table that the error matches, through
  the message or through the code, and 500 when no row matches; in that case the body is
  \<open>Failed to fetch from MEGA: \<close> followed by the error's message (by \<open>Unknown error\<close>
  when the error carries no message or an empty one). This is the response of the
  handler whenever the provider fails on a validated link.
\<close>

theorem dl_catch_follows_table:
  "status (dl_catch err) = tableStatus err
   \<and> (find (rowMatches err) errorTable = None \<longrightarrow>
        dl_catch err = send 500 (''Failed to fetch from MEGA: '' @
          (case message err of
             None \<Rightarrow> ''Unknown error''
           | Some m \<Rightarrow> if m = [] then ''Unknown error'' else m)))
   \<and> (query_link req = Some link \<and> link \<noteq> [] \<and> isAllowedMegaLink (URL pf) link
        \<and> provider link = Inl err \<longrightarrow> dl pf provider req = dl_catch err)"
proof -
  have st: "status (send c t) = c" for c t
    by (simp add: send_def setStatus_def res0_def)
  have a: "status (dl_catch err) = tableStatus err"
    by (simp add: dl_catch_def tableStatus_def errorTable_def rowMatches_def st)
  have b: "find (rowMatches err) errorTable = None \<longrightarrow>
        dl_catch err = send 500 (''Failed to fetch from MEGA: '' @
          (case message err of
             None \<Rightarrow> ''Unknown error''
           | Some m \<Rightarrow> if m = [] then ''Unknown error'' else m))"
    by (simp add: dl_catch_def errorTable_def rowMatches_def split: if_splits)
  have c: "query_link req = Some link \<and> link \<noteq> [] \<and> isAllowedMegaLink (URL pf) link
        \<and> provider link = Inl err \<longrightarrow> dl pf provider req = dl_catch err"
    by (simp add: dl_def)
  from a b c show ?thesis by blast
qed

theorem dl_catch_follows_table_witness:
  "find (rowMatches \<lparr>message = Some ''socket hang up'', code = None\<rparr>) errorTable = None
   \<and> dl_catch \<lparr>message = Some ''socket hang up'', code = None\<rparr>
       = send 500 ''Failed to fetch from MEGA: socket hang up''
   \<and> query_link \<lparr>query_link = Some ''https://mega.nz/file/XXXX'', headers_range = None\<rparr>
       = Some ''https://mega.nz/file/XXXX''
   \<and> isAllowedMegaLink (URL plainPlatform) ''https://mega.nz/file/XXXX''
   \<and> status (dl plainPlatform
         (\<lambda>l. Inl \<lparr>message = Some ''EACCESS (-11): Access denied'', code = Some (- 11)\<rparr>)
         \<lparr>query_link = Some ''https://mega.nz/file/XXXX'', headers_range = None\<rparr>) = 403"
proof -
  let ?e = "\<lparr>message = Some ''socket hang up'', code = None\<rparr>"
  let ?d = "\<lparr>message = Some ''EACCESS (-11): Access denied'', code = Some (- 11)\<rparr>"
  let ?req = "\<lparr>query_link = Some ''https://mega.nz/file/XXXX'', headers_range = None\<rparr>"
  have h1: "find (rowMatches ?e) errorTable = None"
    by code_simp
  have h2: "isAllowedMegaLink (URL plainPlatform) ''https://mega.nz/file/XXXX''"
    by code_simp
  have t: "tableStatus ?d = 403"
    by code_simp
  show ?thesis
    using h1 h2 t
      dl_catch_follows_table[of ?e undefined undefined undefined undefined]
      dl_catch_follows_table[of ?d ?req "''https://mega.nz/file/XXXX''" plainPlatform "\<lambda>l. Inl ?d"]
    by simp
qed








text \<open>
  Claim C6. When the link validates and the resolved size is missing, converts to 0 or
  converts to \<open>NaN\<close>, the response is 400 with the text
  \<open>File appears to be empty or invalid.\<close>; the catch branch is not involved, and the
  response is not a 200.
\<close>

theorem dl_empty_file:
  assumes "query_link req = Some link" and "link \<noteq> []"
    and "isAllowedMegaLink (URL pf) link" and "provider link = Inr f"
    and "size' f = JUndefined \<or> Number pf (size' f) = Fin 0 \<or> Number pf (size' f) = NaN"
  shows "dl pf provider req = send 400 ''File appears to be empty or invalid.''
     \<and> status (dl pf provider req) = 400
     \<and> body (dl pf provider req) = Send ''File appears to be empty or invalid.''"
proof -
  from assms(5) have "Number pf (size' f) = Fin 0 \<or> Number pf (size' f) = NaN"
    by (auto simp: Number_def)
  then have "dl pf provider req = send 400 ''File appears to be empty or invalid.''"
    using assms(1-4) by (auto simp: dl_def Let_def)
  then show ?thesis
    by (simp add: send_def setStatus_def res0_def)
qed

theorem dl_empty_file_witness:
  "Number plainPlatform (JNum (Fin 0)) = Fin 0
   \<and> Number plainPlatform (JStr ''abc'') = NaN
   \<and> dl plainPlatform (\<lambda>l. Inr \<lparr>name = Some ''a.bin'', size' = JNum (Fin 0), download = opensStream\<rparr>)
        \<lparr>query_link = Some ''https://mega.nz/file/XXXX'', headers_range = None\<rparr>
       = send 400 ''File appears to be empty or invalid.''
   \<and> dl plainPlatform (\<lambda>l. Inr \<lparr>name = Some ''a.bin'', size' = JUndefined, download = opensStream\<rparr>)
        \<lparr>query_link = Some ''https://mega.nz/file/XXXX'', headers_range = None\<rparr>
       = send 400 ''File appears to be empty or invalid.''
   \<and> dl plainPlatform (\<lambda>l. Inr \<lparr>name = Some ''a.bin'', size' = JStr ''abc'', download = opensStream\<rparr>)
        \<lparr>query_link = Some ''https://mega.nz/file/XXXX'', headers_range = None\<rparr>
       = send 400 ''File appears to be empty or invalid.''"
proof -
  let ?l = "''https://mega.nz/file/XXXX''"
  let ?req = "\<lparr>query_link = Some ?l, headers_range = None\<rparr>"
  have h3: "isAllowedMegaLink (URL plainPlatform) ?l"
    by code_simp
  have z: "Number plainPlatform (JNum (Fin 0)) = Fin 0"
    by (simp add: Number_def)
  have w: "Number plainPlatform (JStr ''abc'') = NaN"
    by code_simp
  have a: "dl plainPlatform (\<lambda>l. Inr \<lparr>name = Some ''a.bin'', size' = JNum (Fin 0), download = opensStream\<rparr>) ?req
       = send 400 ''File appears to be empty or invalid.''"
    using dl_empty_file[of ?req ?l plainPlatform
        "\<lambda>l. Inr \<lparr>name = Some ''a.bin'', size' = JNum (Fin 0), download = opensStream\<rparr>"
        "\<lparr>name = Some ''a.bin'', size' = JNum (Fin 0), download = opensStream\<rparr>"] h3 z
    by simp
  have b: "dl plainPlatform (\<lambda>l. Inr \<lparr>name = Some ''a.bin'', size' = JUndefined, download = opensStream\<rparr>) ?req
       = send 400 ''File appears to be empty or invalid.''"
    using dl_empty_file[of ?req ?l plainPlatform
        "\<lambda>l. Inr \<lparr>name = Some ''a.bin'', size' = JUndefined, download = opensStream\<rparr>"
        "\<lparr>name = Some ''a.bin'', size' = JUndefined, download = opensStream\<rparr>"] h3
    by simp
  have c: "dl plainPlatform (\<lambda>l. Inr \<lparr>name = Some ''a.bin'', size' = JStr ''abc'', download = opensStream\<rparr>) ?req
       = send 400 ''File appears to be empty or invalid.''"
    using dl_empty_file[of ?req ?l plainPlatform
        "\<lambda>l. Inr \<lparr>name = Some ''a.bin'', size' = JStr ''abc'', download = opensStream\<rparr>"
        "\<lparr>name = Some ''a.bin'', size' = JStr ''abc'', download = opensStream\<rparr>"] h3 w
    by simp
  from z w a b c show ?thesis by simp
qed

end
